theory Spec2Isabelle
  imports Complex_Main
begin

section \<open>Enrichment service (package enrichment)\<close>

text \<open>
  Go strings are byte sequences and \<open>len\<close> counts bytes; they are modelled as
  \<^typ>\<open>string\<close>, whose elements are bytes too. A \<open>float64\<close> is modelled as a
  \<^typ>\<open>real\<close>: rounding and NaN are outside the model.
\<close>

definition maxTextLength :: nat where
  "maxTextLength = 1000"

definition maxTopics :: nat where
  "maxTopics = 5"

definition defaultTemperature :: real where
  "defaultTemperature = 0"

record Enrichment =
  Sentiment :: string
  SentimentScore :: real
  Emotion :: string
  Topics :: "string list"

definition nl :: string where
  "nl = [CHR 0x0A]"

text \<open>The lines of the format string of \<open>buildPrompt\<close> up to the line that holds \<open>%s\<close>.\<close>

definition prompt_lines :: "string list" where
  \<open>prompt_lines =
    [''You are a feedback analysis assistant. Analyze the following feedback and output JSON with these exact keys:'',
     '''',
     ''{'',
     ''  "sentiment": "positive" | "negative" | "neutral",'',
     ''  "sentiment_score": number between -1.0 (very negative) and 1.0 (very positive),'',
     ''  "emotion": "joy" | "anger" | "frustration" | "sadness" | "neutral",'',
     ''  "topics": array of 2-4 short topic keywords (e.g., ["pricing", "UI", "performance"])'',
     ''}'',
     '''',
     ''Rules:'',
     ''- Output ONLY valid JSON, no additional text'',
     ''- Use lowercase for sentiment and emotion'',
     ''- Topics should be concise keywords, not full sentences'',
     ''- If unclear, default to "neutral" sentiment and 0.0 score'',
     ''- If a question is provided, use it as context for topic extraction'',
     '''',
     ''Feedback:'']\<close>

definition prompt_head :: string where
  \<open>prompt_head = concat (map (\<lambda>l. l @ nl) prompt_lines) @ ''"''\<close>

definition prompt_tail :: string where
  \<open>prompt_tail = ''"''\<close>

text \<open>\<open>Service.buildPrompt\<close>: the text is cut before it is formatted into the prompt.\<close>

definition buildPrompt :: "string \<Rightarrow> string" where
  "buildPrompt text =
     (let text' = (if length text > maxTextLength
                   then take maxTextLength text @ ''...''
                   else text)
      in prompt_head @ text' @ prompt_tail)"

text \<open>\<open>Service.normalizeEnrichment\<close>, statement by statement.\<close>

definition validEmotions :: "string list" where
  "validEmotions = [''joy'', ''anger'', ''frustration'', ''sadness'', ''neutral'']"

definition normalizeEnrichment :: "Enrichment \<Rightarrow> Enrichment" where
  "normalizeEnrichment e =
     (let e1 = (if Sentiment e = ''positive'' \<or> Sentiment e = ''negative'' \<or> Sentiment e = ''neutral''
                then e
                else e\<lparr>Sentiment := ''neutral''\<rparr>);
          e2 = (if SentimentScore e1 < - 1 then e1\<lparr>SentimentScore := - 1\<rparr>
                else if SentimentScore e1 > 1 then e1\<lparr>SentimentScore := 1\<rparr>
                else e1);
          e3 = (if Emotion e2 \<in> set validEmotions then e2 else e2\<lparr>Emotion := ''neutral''\<rparr>);
          e4 = (if length (Topics e3) > maxTopics
                then e3\<lparr>Topics := take maxTopics (Topics e3)\<rparr>
                else e3)
      in e4)"

text \<open>
  \<open>Service.EnrichText\<close>. The chat-completion call and \<open>json.Unmarshal\<close> belong to
  libraries: the call is a parameter that maps the request to an error or to the message
  contents of the returned choices, the decoder a parameter that maps a content to a
  decoded value or to nothing.
\<close>

record chat_request =
  req_content :: string
  req_model :: string
  req_temperature :: "real option"

datatype enrich_error = OpenAIApiError | NoResponse | ParseFailed

definition chat_params :: "string \<Rightarrow> string \<Rightarrow> chat_request" where
  "chat_params model text =
     \<lparr>req_content = buildPrompt text,
      req_model = model,
      req_temperature = (if model \<noteq> ''gpt-5-mini'' then Some defaultTemperature else None)\<rparr>"

definition EnrichText ::
  "(chat_request \<Rightarrow> unit + string list) \<Rightarrow> (string \<Rightarrow> Enrichment option) \<Rightarrow>
   string \<Rightarrow> string \<Rightarrow> enrich_error + Enrichment" where
  "EnrichText completions unmarshal model text =
     (case completions (chat_params model text) of
        Inl _ \<Rightarrow> Inl OpenAIApiError
      | Inr choices \<Rightarrow>
          (case choices of
             [] \<Rightarrow> Inl NoResponse
           | content # _ \<Rightarrow>
               (case unmarshal content of
                  None \<Rightarrow> Inl ParseFailed
                | Some enrichment \<Rightarrow> Inr (normalizeEnrichment enrichment))))"

section \<open>API-key comparison (package middleware)\<close>

text \<open>
  \<open>subtle.ConstantTimeCompare\<close> and \<open>subtle.ConstantTimeEq\<close> are library code. The
  first returns 0 at once when the two slices differ in length, and otherwise reads every
  pair of bytes and returns 1 exactly when all pairs agree. The model returns, next to the
  result, the number of byte pairs read, which is the work that an observer can time.
\<close>

definition ConstantTimeCompare :: "string \<Rightarrow> string \<Rightarrow> int \<times> nat" where
  "ConstantTimeCompare x y =
     (if length x \<noteq> length y then (0, 0)
      else (if x = y then 1 else 0, length x))"

text \<open>\<open>ConstantTimeEq(int32(x), int32(y))\<close>: the conversion keeps the low 32 bits.\<close>

definition ConstantTimeEq_int32 :: "nat \<Rightarrow> nat \<Rightarrow> int" where
  "ConstantTimeEq_int32 x y = (if x mod 2 ^ 32 = y mod 2 ^ 32 then 1 else 0)"

text \<open>
  \<open>secureCompare\<close> as the store's middleware has it: a length test in front of the
  library call. The second component is the number of byte pairs read.
\<close>

definition store_secureCompare :: "string \<Rightarrow> string \<Rightarrow> bool \<times> nat" where
  "store_secureCompare a b =
     (if length a \<noteq> length b then (False, 0)
      else (fst (ConstantTimeCompare a b) = 1, snd (ConstantTimeCompare a b)))"

text \<open>
  \<open>secureCompare\<close> as the hub's middleware has it: \<open>make\<close> gives zeroed slices of
  the longer length and \<open>copy\<close> fills their fronts.
\<close>

definition pad_to :: "nat \<Rightarrow> string \<Rightarrow> string" where
  "pad_to n bs = bs @ replicate (n - length bs) (CHR 0x00)"

definition hub_secureCompare :: "string \<Rightarrow> string \<Rightarrow> bool \<times> nat" where
  "hub_secureCompare a b =
     (let maxLen = (if length b > length a then length b else length a);
          aPadded = pad_to maxLen a;
          bPadded = pad_to maxLen b;
          m = ConstantTimeCompare aPadded bPadded;
          lengthMatch = ConstantTimeEq_int32 (length a) (length b)
      in (fst m = 1 \<and> lengthMatch = 1, snd m))"

section \<open>Webhook dispatcher (package webhook)\<close>



















section \<open>The store: records and jobs (package schema)\<close>

text \<open>
  A UUID is a number, an instant a number of microseconds. The UUID library is not part of
  the repository: the functions below take its parser and its printer as a parameter.
  JSON values are opaque.
\<close>

type_synonym uuid = nat
type_synonym time = int
type_synonym json = string

record uuidlib =
  uuid_Parse :: "string \<Rightarrow> uuid option"
  uuid_String :: "uuid \<Rightarrow> string"

text \<open>
  A stand-in for the library on which the model can be run: a UUID prints as that many
  letters \<open>u\<close>. The general theorems hold for every parser and printer.
\<close>

definition unary_uuid :: uuidlib where
  "unary_uuid =
     \<lparr>uuid_Parse = (\<lambda>s. if s = replicate (length s) (CHR ''u'') then Some (length s) else None),
      uuid_String = (\<lambda>n. replicate n (CHR ''u''))\<rparr>"

text \<open>A row of the table of the \<open>ExperienceData\<close> schema; an optional column is an option.\<close>

record experience =
  exp_id :: uuid
  exp_collected_at :: time
  exp_created_at :: time
  exp_updated_at :: time
  exp_source_type :: string
  exp_source_id :: "string option"
  exp_source_name :: "string option"
  exp_field_id :: string
  exp_field_label :: "string option"
  exp_field_type :: string
  exp_value_text :: "string option"
  exp_value_number :: "real option"
  exp_value_boolean :: "bool option"
  exp_value_date :: "time option"
  exp_value_json :: "json option"
  exp_metadata :: "json option"
  exp_language :: "string option"
  exp_sentiment :: "string option"
  exp_sentiment_score :: "real option"
  exp_emotion :: "string option"
  exp_topics :: "string list option"
  exp_user_identifier :: "string option"
  exp_embedding :: "real list option"
  exp_embedding_model :: "string option"

text \<open>A row of the table of the \<open>EnrichmentJob\<close> schema.\<close>

record job_row =
  job_id :: uuid
  job_experience_id :: uuid
  job_type :: string
  job_status :: string
  job_text :: string
  job_error :: "string option"
  job_attempts :: int
  job_created_at :: time
  job_processed_at :: "time option"

text \<open>
  The database: the two tables, each in the order in which the database scans its rows,
  and whether the database executes the next statement or answers with a failure.
\<close>

record database =
  experiences :: "experience list"
  jobs :: "job_row list"
  db_up :: bool

datatype db_error = DbUnavailable | DbNotFound | DbConstraint | DbValidation

definition validFieldTypes :: "string list" where
  "validFieldTypes =
     [''text'', ''categorical'', ''nps'', ''csat'', ''rating'', ''number'', ''boolean'', ''date'']"

text \<open>The validators of the \<open>ExperienceData\<close> schema, which run before the insert.\<close>

definition experience_valid :: "experience \<Rightarrow> bool" where
  "experience_valid e =
     (exp_source_type e \<noteq> [] \<and> exp_field_id e \<noteq> [] \<and> exp_field_type e \<noteq> [] \<and>
      exp_field_type e \<in> set validFieldTypes \<and>
      (case exp_language e of None \<Rightarrow> True | Some l \<Rightarrow> length l \<le> 10))"

definition insert_experience :: "database \<Rightarrow> experience \<Rightarrow> db_error + database" where
  "insert_experience db e =
     (if \<not> experience_valid e then Inl DbValidation
      else if \<not> db_up db then Inl DbUnavailable
      else if exp_id e \<in> set (map exp_id (experiences db)) then Inl DbConstraint
      else Inr (db\<lparr>experiences := experiences db @ [e]\<rparr>))"

text \<open>
  The insert of a job: the primary key is unique and the edge to the experience is a
  required foreign key.
\<close>

definition insert_job :: "database \<Rightarrow> job_row \<Rightarrow> db_error + database" where
  "insert_job db j =
     (if \<not> db_up db then Inl DbUnavailable
      else if job_id j \<in> set (map job_id (jobs db)) then Inl DbConstraint
      else if job_experience_id j \<notin> set (map exp_id (experiences db)) then Inl DbConstraint
      else Inr (db\<lparr>jobs := jobs db @ [j]\<rparr>))"

text \<open>
  \<open>UPDATE ... WHERE\<close> on the job table, as \<open>UpdateOneID\<close> runs it: no row affected is
  the not-found error; otherwise the rows that matched are returned as updated.
\<close>

definition update_jobs ::
  "database \<Rightarrow> (job_row \<Rightarrow> bool) \<Rightarrow> (job_row \<Rightarrow> job_row) \<Rightarrow> db_error + database \<times> job_row list" where
  "update_jobs db P f =
     (if \<not> db_up db then Inl DbUnavailable
      else (case filter P (jobs db) of
              [] \<Rightarrow> Inl DbNotFound
            | hits \<Rightarrow> Inr (db\<lparr>jobs := map (\<lambda>j. if P j then f j else j) (jobs db)\<rparr>, map f hits)))"

section \<open>Job queue (package queue)\<close>

definition JobTypeEnrichment :: string where
  "JobTypeEnrichment = ''enrichment''"

definition JobTypeEmbedding :: string where
  "JobTypeEmbedding = ''embedding''"

record EnrichmentJob =
  ej_ID :: string
  ej_ExperienceID :: string
  ej_JobType :: string
  ej_Text :: string

datatype queue_error =
    InvalidExperienceID
  | EnqueueFailed
  | QueryFailed
  | UpdateFailed
  | InvalidJobID
  | MarkCompleteFailed
  | MarkFailedFailed

text \<open>
  \<open>enqueueJob\<close>. The new row's id (\<open>uuid.New\<close>) and creation time (\<open>time.Now\<close>) are
  inputs; the other columns take the defaults of the schema.
\<close>

definition enqueueJob ::
  "uuidlib \<Rightarrow> uuid \<Rightarrow> time \<Rightarrow> database \<Rightarrow> string \<Rightarrow> string \<Rightarrow> string \<Rightarrow>
   database \<times> (queue_error + unit)" where
  "enqueueJob U new_id now db experienceID text jobType =
     (case uuid_Parse U experienceID of
        None \<Rightarrow> (db, Inl InvalidExperienceID)
      | Some expID \<Rightarrow>
          (case insert_job db
                  \<lparr>job_id = new_id, job_experience_id = expID, job_type = jobType,
                   job_status = ''pending'', job_text = text, job_error = None,
                   job_attempts = 0, job_created_at = now, job_processed_at = None\<rparr> of
             Inl _ \<Rightarrow> (db, Inl EnqueueFailed)
           | Inr db' \<Rightarrow> (db', Inr ())))"

definition Enqueue ::
  "uuidlib \<Rightarrow> uuid \<Rightarrow> time \<Rightarrow> database \<Rightarrow> string \<Rightarrow> string \<Rightarrow> database \<times> (queue_error + unit)" where
  "Enqueue U new_id now db experienceID text =
     enqueueJob U new_id now db experienceID text JobTypeEnrichment"

definition EnqueueEmbedding ::
  "uuidlib \<Rightarrow> uuid \<Rightarrow> time \<Rightarrow> database \<Rightarrow> string \<Rightarrow> string \<Rightarrow> database \<times> (queue_error + unit)" where
  "EnqueueEmbedding U new_id now db experienceID text =
     enqueueJob U new_id now db experienceID text JobTypeEmbedding"

text \<open>
  The first statement of \<open>Dequeue\<close>: the pending rows in ascending \<open>created_at\<close>, at most
  one. The query names no second sort key, so among rows of equal \<open>created_at\<close> the
  database returns them as it scans them: the sort is stable on the table's order.
\<close>

definition dequeue_query :: "database \<Rightarrow> db_error + job_row list" where
  "dequeue_query db =
     (if \<not> db_up db then Inl DbUnavailable
      else Inr (take 1 (sort_key job_created_at
                          (filter (\<lambda>j. job_status j = ''pending'') (jobs db)))))"

text \<open>
  The second statement of \<open>Dequeue\<close>: the conditional update of the row that the query
  returned, and what \<open>Dequeue\<close> returns after it.
\<close>

definition dequeue_claim ::
  "uuidlib \<Rightarrow> database \<Rightarrow> job_row \<Rightarrow> database \<times> (queue_error + EnrichmentJob option)" where
  "dequeue_claim U db job =
     (case update_jobs db (\<lambda>j. job_id j = job_id job \<and> job_status j = ''pending'')
             (\<lambda>j. j\<lparr>job_status := ''processing'', job_attempts := job_attempts job + 1\<rparr>) of
        Inl DbNotFound \<Rightarrow> (db, Inr None)
      | Inl _ \<Rightarrow> (db, Inl UpdateFailed)
      | Inr (db', updated) \<Rightarrow>
          (case updated of
             [] \<Rightarrow> (db', Inr None)
           | updatedJob # _ \<Rightarrow>
               (db', Inr (Some \<lparr>ej_ID = uuid_String U (job_id updatedJob),
                                ej_ExperienceID = uuid_String U (job_experience_id updatedJob),
                                ej_JobType = job_type updatedJob,
                                ej_Text = job_text updatedJob\<rparr>))))"

definition Dequeue :: "uuidlib \<Rightarrow> database \<Rightarrow> database \<times> (queue_error + EnrichmentJob option)" where
  "Dequeue U db =
     (case dequeue_query db of
        Inl _ \<Rightarrow> (db, Inl QueryFailed)
      | Inr [] \<Rightarrow> (db, Inr None)
      | Inr (job # _) \<Rightarrow> dequeue_claim U db job)"

definition MarkComplete ::
  "uuidlib \<Rightarrow> time \<Rightarrow> database \<Rightarrow> string \<Rightarrow> database \<times> (queue_error + unit)" where
  "MarkComplete U now db jobID =
     (case uuid_Parse U jobID of
        None \<Rightarrow> (db, Inl InvalidJobID)
      | Some i \<Rightarrow>
          (case update_jobs db (\<lambda>j. job_id j = i)
                  (\<lambda>j. j\<lparr>job_status := ''completed'', job_processed_at := Some now\<rparr>) of
             Inl _ \<Rightarrow> (db, Inl MarkCompleteFailed)
           | Inr (db', _) \<Rightarrow> (db', Inr ())))"

definition MarkFailed ::
  "uuidlib \<Rightarrow> time \<Rightarrow> database \<Rightarrow> string \<Rightarrow> string option \<Rightarrow> database \<times> (queue_error + unit)" where
  "MarkFailed U now db jobID jobErr =
     (case uuid_Parse U jobID of
        None \<Rightarrow> (db, Inl InvalidJobID)
      | Some i \<Rightarrow>
          (let errorMsg = (case jobErr of None \<Rightarrow> ''unknown error'' | Some e \<Rightarrow> e)
           in case update_jobs db (\<lambda>j. job_id j = i)
                     (\<lambda>j. j\<lparr>job_status := ''failed'', job_error := Some errorMsg,
                             job_processed_at := Some now\<rparr>) of
                Inl _ \<Rightarrow> (db, Inl MarkFailedFailed)
              | Inr (db', _) \<Rightarrow> (db', Inr ())))"

section \<open>Properties of the enrichment service\<close>



text \<open>
  C7, as the claim states it, fails: a provider result whose sentiment is \<open>mixed\<close> leaves
  normalization as \<open>neutral\<close>.
\<close>

theorem normalizeEnrichment_mixed_counterexample:
  "Sentiment (normalizeEnrichment
      \<lparr>Sentiment = ''mixed'', SentimentScore = 1 / 5, Emotion = ''neutral'', Topics = []\<rparr>)
     = ''neutral'' \<and>
   Sentiment (normalizeEnrichment
      \<lparr>Sentiment = ''mixed'', SentimentScore = 1 / 5, Emotion = ''neutral'', Topics = []\<rparr>)
     \<noteq> ''mixed''"
  by (simp add: normalizeEnrichment_def Let_def)

text \<open>
  C7, amended. Normalization keeps the sentiment exactly when it is one of \<open>positive\<close>,
  \<open>negative\<close> and \<open>neutral\<close>; every other value, \<open>mixed\<close> among them, becomes
  \<open>neutral\<close>.
\<close>

theorem normalizeEnrichment_sentiment:
  "Sentiment (normalizeEnrichment e) =
     (if Sentiment e = ''positive'' \<or> Sentiment e = ''negative'' \<or> Sentiment e = ''neutral''
      then Sentiment e
      else ''neutral'')"
  by (simp add: normalizeEnrichment_def Let_def)

theorem normalizeEnrichment_sentiment_witness:
  "Sentiment (normalizeEnrichment
      \<lparr>Sentiment = ''negative'', SentimentScore = - 4 / 5, Emotion = ''frustration'',
       Topics = [''checkout'', ''performance'']\<rparr>) = ''negative'' \<and>
   Sentiment (normalizeEnrichment
      \<lparr>Sentiment = ''mixed'', SentimentScore = 1 / 10, Emotion = ''confused'',
       Topics = [''ui_design'', ''pricing'']\<rparr>) = ''neutral''"
  using normalizeEnrichment_sentiment
      [of "\<lparr>Sentiment = ''negative'', SentimentScore = - 4 / 5, Emotion = ''frustration'',
            Topics = [''checkout'', ''performance'']\<rparr>"]
    normalizeEnrichment_sentiment
      [of "\<lparr>Sentiment = ''mixed'', SentimentScore = 1 / 10, Emotion = ''confused'',
            Topics = [''ui_design'', ''pricing'']\<rparr>"]
  by simp

section \<open>Properties of the API-key comparison\<close>

text \<open>
  The hub's comparison reads as many byte pairs as the longer input has, whatever the two
  inputs hold and whether or not their lengths agree.
\<close>

lemma hub_secureCompare_work:
  "snd (hub_secureCompare a b) = max (length a) (length b)"
  by (simp add: hub_secureCompare_def pad_to_def ConstantTimeCompare_def Let_def max_def)

lemma store_secureCompare_work:
  "snd (store_secureCompare a b) = (if length a = length b then length a else 0)"
  by (simp add: store_secureCompare_def ConstantTimeCompare_def)

text \<open>
  C9. The store's comparison returns on a length mismatch before any byte is read: against
  the configured key \<open>secret\<close> the wrong key \<open>ab\<close> costs no byte comparison and the
  wrong key \<open>abcdef\<close> costs six, so the two are told apart by the work done. The hub's
  comparison pads both and reads six pairs for either.
\<close>

theorem store_secureCompare_short_circuits:
  "store_secureCompare ''ab'' ''secret'' = (False, 0) \<and>
   store_secureCompare ''abcdef'' ''secret'' = (False, 6) \<and>
   hub_secureCompare ''ab'' ''secret'' = (False, 6) \<and>
   hub_secureCompare ''abcdef'' ''secret'' = (False, 6)"
  by (simp add: store_secureCompare_def hub_secureCompare_def pad_to_def
      ConstantTimeCompare_def ConstantTimeEq_int32_def)

section \<open>Properties of the webhook dispatcher\<close>

























end
